theory Spec2Isabelle
  imports Main "HOL-Library.AList"
begin

section \<open>Values of the program\<close>

text \<open>
  \<^verbatim>\<open>result.json()\<close> yields a Python object built from dicts, lists, strings, numbers,
  booleans and \<^verbatim>\<open>None\<close>. A dict is kept as an association list in insertion order (the
  order decides which row \<^verbatim>\<open>[:-1]\<close> drops); a parsed dict never repeats a key. Numbers
  are integers here: no claim depends on fractional coordinates.
\<close>

datatype json =
    JNull
  | JBool bool
  | JNum int
  | JStr string
  | JArr "json list"
  | JObj "(string \<times> json) list"

text \<open>
  Exceptions are values. \<^verbatim>\<open>Timeout\<close>, \<^verbatim>\<open>ConnectionError\<close>, \<^verbatim>\<open>HTTPError\<close> and
  \<^verbatim>\<open>JSONDecodeError\<close> are the classes of \<^verbatim>\<open>requests.exceptions\<close> (all derive from
  \<^verbatim>\<open>RequestException\<close>; \<^verbatim>\<open>JSONDecodeError\<close> does so since requests 2.27); the next four
  are Python's built-in errors; \<^verbatim>\<open>KeyboardInterrupt\<close> stands for the classes that derive
  from \<^verbatim>\<open>BaseException\<close> but not from \<^verbatim>\<open>Exception\<close>, which no handler of the source
  catches. The string is \<^verbatim>\<open>str(e)\<close>.
\<close>

datatype exc_class =
    Timeout | ConnectionError | HTTPError | JSONDecodeError
  | KeyError | IndexError | TypeError | ValueError
  | KeyboardInterrupt

datatype exn = Exc exc_class string

fun exc_class_of :: "exn \<Rightarrow> exc_class" where
  "exc_class_of (Exc c m) = c"

fun str_of_exn :: "exn \<Rightarrow> string" where
  "str_of_exn (Exc c m) = m"

definition is_Timeout :: "exn \<Rightarrow> bool" where
  "is_Timeout e = (exc_class_of e = Timeout)"

definition is_RequestException :: "exn \<Rightarrow> bool" where
  "is_RequestException e =
     (exc_class_of e = Timeout \<or> exc_class_of e = ConnectionError \<or>
      exc_class_of e = HTTPError \<or> exc_class_of e = JSONDecodeError)"

definition is_Exception :: "exn \<Rightarrow> bool" where
  "is_Exception e = (exc_class_of e \<noteq> KeyboardInterrupt)"

text \<open>Sequencing of steps that may raise: the first exception ends the computation.\<close>

definition bind_exn :: "exn + 'a \<Rightarrow> ('a \<Rightarrow> exn + 'b) \<Rightarrow> exn + 'b" where
  "bind_exn m f = (case m of Inl e \<Rightarrow> Inl e | Inr x \<Rightarrow> f x)"

subsection \<open>Strings\<close>

definition quote :: char where
  "quote = CHR 0x27"

fun str_nat :: "nat \<Rightarrow> string" where
  "str_nat n =
     (if n < 10 then [char_of (48 + n)]
      else str_nat (n div 10) @ [char_of (48 + n mod 10)])"

definition repr_str :: "string \<Rightarrow> string" where
  "repr_str s = quote # s @ [quote]"

fun starts_with :: "string \<Rightarrow> string \<Rightarrow> bool" where
  "starts_with s [] = True"
| "starts_with [] (c # t) = False"
| "starts_with (d # s) (c # t) = (d = c \<and> starts_with s t)"

fun str_contains :: "string \<Rightarrow> string \<Rightarrow> bool" where
  "str_contains [] t = (t = [])"
| "str_contains (d # s) t = (starts_with (d # s) t \<or> str_contains s t)"

subsection \<open>Python's operators on parsed JSON\<close>

fun type_name :: "json \<Rightarrow> string" where
  "type_name JNull = ''NoneType''"
| "type_name (JBool b) = ''bool''"
| "type_name (JNum n) = ''int''"
| "type_name (JStr s) = ''str''"
| "type_name (JArr xs) = ''list''"
| "type_name (JObj kvs) = ''dict''"

text \<open>\<^verbatim>\<open>key in ob\<close>, for a string \<^verbatim>\<open>key\<close>.\<close>

fun py_in :: "string \<Rightarrow> json \<Rightarrow> exn + bool" where
  "py_in k (JObj kvs) = Inr (k \<in> set (map fst kvs))"
| "py_in k (JArr xs) = Inr (JStr k \<in> set xs)"
| "py_in k (JStr s) = Inr (str_contains s k)"
| "py_in k v =
     Inl (Exc TypeError (''argument of type '' @ repr_str (type_name v) @ '' is not iterable''))"

text \<open>\<^verbatim>\<open>ob[key]\<close>, for a string \<^verbatim>\<open>key\<close>.\<close>

fun py_getitem :: "json \<Rightarrow> string \<Rightarrow> exn + json" where
  "py_getitem (JObj kvs) k =
     (case map_of kvs k of
        None \<Rightarrow> Inl (Exc KeyError (repr_str k))
      | Some v \<Rightarrow> Inr v)"
| "py_getitem (JArr xs) k =
     Inl (Exc TypeError ''list indices must be integers or slices, not str'')"
| "py_getitem (JStr s) k =
     Inl (Exc TypeError ''string indices must be integers'')"
| "py_getitem v k =
     Inl (Exc TypeError (repr_str (type_name v) @ '' object is not subscriptable''))"

text \<open>\<^verbatim>\<open>ob[i]\<close>, for a natural number \<^verbatim>\<open>i\<close>. The keys of a parsed dict are strings.\<close>

fun py_getitem_int :: "json \<Rightarrow> nat \<Rightarrow> exn + json" where
  "py_getitem_int (JArr xs) i =
     (if i < length xs then Inr (xs ! i)
      else Inl (Exc IndexError ''list index out of range''))"
| "py_getitem_int (JStr s) i =
     (if i < length s then Inr (JStr [s ! i])
      else Inl (Exc IndexError ''string index out of range''))"
| "py_getitem_int (JObj kvs) i = Inl (Exc KeyError (str_nat i))"
| "py_getitem_int v i =
     Inl (Exc TypeError (repr_str (type_name v) @ '' object is not subscriptable''))"

fun py_len :: "json \<Rightarrow> exn + nat" where
  "py_len (JArr xs) = Inr (length xs)"
| "py_len (JStr s) = Inr (length s)"
| "py_len (JObj kvs) = Inr (length kvs)"
| "py_len v =
     Inl (Exc TypeError (''object of type '' @ repr_str (type_name v) @ '' has no len()''))"

text \<open>The items a \<^verbatim>\<open>for\<close> loop visits.\<close>

fun py_iter :: "json \<Rightarrow> exn + json list" where
  "py_iter (JArr xs) = Inr xs"
| "py_iter (JStr s) = Inr (map (\<lambda>c. JStr [c]) s)"
| "py_iter (JObj kvs) = Inr (map (\<lambda>kv. JStr (fst kv)) kvs)"
| "py_iter v =
     Inl (Exc TypeError (repr_str (type_name v) @ '' object is not iterable''))"

section \<open>The remote service\<close>

text \<open>
  One call sends one request. What comes back is the remote behaviour the code can
  observe: \<^verbatim>\<open>requests.get\<close> raises \<^verbatim>\<open>Timeout\<close>, or another \<^verbatim>\<open>RequestException\<close>
  (carrying its message), or returns a response with a status code, a reason phrase
  and a body that \<^verbatim>\<open>json()\<close> either parses or rejects.
\<close>

record request =
  url :: string
  timeout :: nat
  verify :: bool

datatype body = Malformed string | Parsed json

datatype reply = TimedOut | Failed string | Replied nat string body

type_synonym service = "request \<Rightarrow> reply"

text \<open>The part of the process the functions touch: what was printed, what was sent.\<close>

record world =
  stdout :: "string list"
  sent :: "request list"

definition requests_get :: "service \<Rightarrow> request \<Rightarrow> exn + (nat \<times> string \<times> body)" where
  "requests_get svc req =
     (case svc req of
        TimedOut \<Rightarrow> Inl (Exc Timeout ''timed out'')
      | Failed m \<Rightarrow> Inl (Exc ConnectionError m)
      | Replied st reason b \<Rightarrow> Inr (st, reason, b))"

definition raise_for_status :: "request \<Rightarrow> nat \<times> string \<times> body \<Rightarrow> exn + unit" where
  "raise_for_status req result =
     (case result of (st, reason, b) \<Rightarrow>
        if 400 \<le> st \<and> st < 500 then
          Inl (Exc HTTPError (str_nat st @ '' Client Error: '' @ reason @ '' for url: '' @ url req))
        else if 500 \<le> st \<and> st < 600 then
          Inl (Exc HTTPError (str_nat st @ '' Server Error: '' @ reason @ '' for url: '' @ url req))
        else Inr ())"

definition json_of :: "nat \<times> string \<times> body \<Rightarrow> exn + json" where
  "json_of result =
     (case result of (st, reason, b) \<Rightarrow>
        (case b of Malformed m \<Rightarrow> Inl (Exc JSONDecodeError m) | Parsed j \<Rightarrow> Inr j))"

text \<open>
  The first three lines of each \<^verbatim>\<open>try\<close> block: \<^verbatim>\<open>requests.get\<close>, \<^verbatim>\<open>raise_for_status\<close>,
  \<^verbatim>\<open>json\<close>.
\<close>

definition fetch :: "service \<Rightarrow> request \<Rightarrow> exn + json" where
  "fetch svc req =
     bind_exn (requests_get svc req) (\<lambda>result.
     bind_exn (raise_for_status req result) (\<lambda>u.
     json_of result))"

section \<open>Geometry\<close>

text \<open>
  shapely is outside the repository; this is its model. Coordinates are integers and a
  geometry is the set of unit cells of the plane it covers, a cell named by its lower
  left corner. \<^verbatim>\<open>Polygon(ring)\<close> is the filled interior of the ring: the cells whose
  centre the ring encloses by the even-odd rule (exact for rings with axis-parallel
  edges, such as the squares used below). \<^verbatim>\<open>unary_union\<close> is the union of the point sets
  and \<^verbatim>\<open>area\<close> counts cells. As in shapely 2, a ring is closed if it is not, an empty
  ring gives the empty polygon, and a ring with fewer than four coordinates after
  closing is rejected.
\<close>

type_synonym point = "int \<times> int"

type_synonym geometry = "(int \<times> int) set"

fun coordinate :: "json \<Rightarrow> point option" where
  "coordinate (JArr [JNum x, JNum y]) = Some (x, y)"
| "coordinate (JArr [JNum x, JNum y, JNum z]) = Some (x, y)"
| "coordinate v = None"

definition close_ring :: "point list \<Rightarrow> point list" where
  "close_ring ps = (if ps \<noteq> [] \<and> hd ps \<noteq> last ps then ps @ [hd ps] else ps)"

definition edges :: "point list \<Rightarrow> (point \<times> point) list" where
  "edges ps = zip ps (tl ps)"

text \<open>
  Does the ray from the centre of cell \<open>c\<close> towards larger x cross the edge? Everything
  is doubled, so the centre has odd coordinates and never lies level with a vertex.
\<close>

definition crosses :: "int \<times> int \<Rightarrow> point \<times> point \<Rightarrow> bool" where
  "crosses c e =
     (case c of (i, j) \<Rightarrow> case e of ((x1, y1), (x2, y2)) \<Rightarrow>
        let cx = 2 * i + 1; cy = 2 * j + 1;
            px = 2 * x1; py = 2 * y1; qx = 2 * x2; qy = 2 * y2
        in if py < cy \<and> cy < qy then (cx - px) * (qy - py) < (cy - py) * (qx - px)
           else if qy < cy \<and> cy < py then (cy - py) * (qx - px) < (cx - px) * (qy - py)
           else False)"

definition inside :: "point list \<Rightarrow> int \<times> int \<Rightarrow> bool" where
  "inside ps c = odd (length (filter (crosses c) (edges ps)))"

definition box :: "point list \<Rightarrow> (int \<times> int) list" where
  "box ps =
     (if ps = [] then []
      else let xs = map fst ps; ys = map snd ps
           in List.product [foldr min xs (hd xs) .. foldr max xs (hd xs) - 1]
                           [foldr min ys (hd ys) .. foldr max ys (hd ys) - 1])"

definition region :: "point list \<Rightarrow> geometry" where
  "region ps = set (filter (inside ps) (box ps))"

definition Polygon :: "json \<Rightarrow> exn + geometry" where
  "Polygon ring =
     (case ring of
        JArr pts \<Rightarrow>
          (case those (map coordinate pts) of
             None \<Rightarrow> Inl (Exc ValueError ''Inconsistent coordinate dimensionality'')
           | Some ps \<Rightarrow>
               if close_ring ps \<noteq> [] \<and> length (close_ring ps) < 4 then
                 Inl (Exc ValueError ''A linearring requires at least 4 coordinates.'')
               else Inr (region (close_ring ps)))
      | v \<Rightarrow> Inl (Exc TypeError (repr_str (type_name v) @ '' object is not a coordinate sequence'')))"

definition unary_union :: "geometry list \<Rightarrow> geometry" where
  "unary_union geoms = \<Union> (set geoms)"


section \<open>Tables\<close>

text \<open>
  pandas is outside the repository; this is its model. A \<^verbatim>\<open>DataFrame\<close> has row labels,
  column labels and one cell for each pair of them. A label is a string or a position
  of a \<^verbatim>\<open>RangeIndex\<close>. A cell holds a parsed value, a shapely geometry, or \<^verbatim>\<open>NaN\<close> where
  the data had nothing; Python's \<^verbatim>\<open>None\<close> is \<open>Obj JNull\<close>. Outside the labels \<open>loc\<close> is
  \<open>NaN\<close>.
\<close>

datatype label = Name string | Pos nat

datatype cell = NaN | Obj json | Geo geometry

record DataFrame =
  index :: "label list"
  columns :: "label list"
  loc :: "label \<Rightarrow> label \<Rightarrow> cell"


definition len_df :: "DataFrame \<Rightarrow> nat" where
  "len_df df = length (index df)"

text \<open>The distinct elements in the order of their first appearance.\<close>

definition unique :: "'a list \<Rightarrow> 'a list" where
  "unique xs = rev (remdups (rev xs))"

definition empty_frame :: DataFrame where
  "empty_frame = \<lparr>index = [], columns = [], loc = (\<lambda>r c. NaN)\<rparr>"

text \<open>
  \<^verbatim>\<open>pd.DataFrame.from_dict(data)\<close> with the default \<^verbatim>\<open>orient='columns'\<close> is
  \<^verbatim>\<open>pd.DataFrame(data)\<close>. For a dict, the keys are the columns. The rows come from the
  values: dicts contribute their keys (in order of first appearance), lists their
  common length; a scalar is repeated down its column; a dict of scalars alone has no
  rows and is rejected, and so are lists of different lengths and lists beside dicts.
  For a list the model keeps one column of the elements, which is what pandas builds
  from a list of scalars; no caller of this file uses the frame of a list, a later
  subscript raising \<^verbatim>\<open>TypeError\<close> on it.
\<close>

definition dict_frame :: "(string \<times> json) list \<Rightarrow> DataFrame" where
  "dict_frame kvs =
     (let keys = unique (concat [map fst d. JObj d \<leftarrow> map snd kvs])
      in \<lparr>index = map Name keys,
          columns = map Name (map fst kvs),
          loc = (\<lambda>r c. case (r, c) of
                   (Name k, Name col) \<Rightarrow>
                     (if k \<in> set keys then
                        (case map_of kvs col of
                           None \<Rightarrow> NaN
                         | Some (JObj d) \<Rightarrow> (case map_of d k of None \<Rightarrow> NaN | Some v \<Rightarrow> Obj v)
                         | Some v \<Rightarrow> Obj v)
                      else NaN)
                 | _ \<Rightarrow> NaN)\<rparr>)"

definition array_frame :: "(string \<times> json) list \<Rightarrow> nat \<Rightarrow> DataFrame" where
  "array_frame kvs n =
     \<lparr>index = map Pos [0..<n],
      columns = map Name (map fst kvs),
      loc = (\<lambda>r c. case (r, c) of
               (Pos i, Name col) \<Rightarrow>
                 (if i < n then
                    (case map_of kvs col of
                       None \<Rightarrow> NaN
                     | Some (JArr xs) \<Rightarrow> Obj (xs ! i)
                     | Some v \<Rightarrow> Obj v)
                  else NaN)
             | _ \<Rightarrow> NaN)\<rparr>"

definition from_dict :: "json \<Rightarrow> exn + DataFrame" where
  "from_dict data =
     (case data of
        JObj kvs \<Rightarrow>
          (let dicts = [d. JObj d \<leftarrow> map snd kvs];
               raw_lengths = [length xs. JArr xs \<leftarrow> map snd kvs]
           in if kvs = [] then Inr empty_frame
              else if dicts = [] \<and> raw_lengths = [] then
                Inl (Exc ValueError ''If using all scalar values, you must pass an index'')
              else if raw_lengths \<noteq> [] then
                (if 1 < length (remdups raw_lengths) then
                   Inl (Exc ValueError ''All arrays must be of the same length'')
                 else if dicts \<noteq> [] then
                   Inl (Exc ValueError
                          ''Mixing dicts with non-Series may lead to ambiguous ordering.'')
                 else Inr (array_frame kvs (hd raw_lengths)))
              else Inr (dict_frame kvs))
      | JArr xs \<Rightarrow>
          Inr \<lparr>index = map Pos [0..<length xs], columns = [Pos 0],
               loc = (\<lambda>r c. case (r, c) of
                        (Pos i, Pos j) \<Rightarrow> if i < length xs \<and> j = 0 then Obj (xs ! i) else NaN
                      | _ \<Rightarrow> NaN)\<rparr>
      | JNull \<Rightarrow> Inr empty_frame
      | v \<Rightarrow> Inl (Exc ValueError ''DataFrame constructor not properly called!''))"

text \<open>\<^verbatim>\<open>df.T\<close>: rows and columns change places.\<close>

definition T :: "DataFrame \<Rightarrow> DataFrame" where
  "T df = \<lparr>index = columns df, columns = index df, loc = (\<lambda>r c. loc df c r)\<rparr>"

text \<open>\<^verbatim>\<open>df[:-1]\<close>: all rows but the last.\<close>

definition drop_last :: "DataFrame \<Rightarrow> DataFrame" where
  "drop_last df =
     \<lparr>index = butlast (index df), columns = columns df,
      loc = (\<lambda>r c. if r \<in> set (butlast (index df)) then loc df r c else NaN)\<rparr>"

text \<open>
  \<^verbatim>\<open>df.loc[r, c] = v\<close>: the cell is set; a row or column label the frame does not have
  is added at the end, its other cells \<^verbatim>\<open>NaN\<close>.
\<close>

definition loc_set :: "DataFrame \<Rightarrow> label \<Rightarrow> label \<Rightarrow> cell \<Rightarrow> DataFrame" where
  "loc_set df r c v =
     \<lparr>index = (if r \<in> set (index df) then index df else index df @ [r]),
      columns = (if c \<in> set (columns df) then columns df else columns df @ [c]),
      loc = (\<lambda>r' c'. if r' = r \<and> c' = c then v else loc df r' c')\<rparr>"

text \<open>
  \<^verbatim>\<open>pd.DataFrame(rows)\<close> for a list of dicts: one row per dict under a \<^verbatim>\<open>RangeIndex\<close>, the
  columns the keys in order of first appearance, \<^verbatim>\<open>NaN\<close> where a dict lacks a key.
\<close>

definition DataFrame_of_rows :: "(string \<times> cell) list list \<Rightarrow> DataFrame" where
  "DataFrame_of_rows rows =
     \<lparr>index = map Pos [0..<length rows],
      columns = map Name (unique (concat (map (map fst) rows))),
      loc = (\<lambda>r c. case (r, c) of
               (Pos i, Name k) \<Rightarrow>
                 (if i < length rows then
                    (case map_of (rows ! i) k of None \<Rightarrow> NaN | Some v \<Rightarrow> v)
                  else NaN)
             | _ \<Rightarrow> NaN)\<rparr>"

section \<open>The three operations\<close>

definition print :: "string list \<Rightarrow> world \<Rightarrow> world" where
  "print lines w = w\<lparr>stdout := stdout w @ lines\<rparr>"

definition send :: "request \<Rightarrow> world \<Rightarrow> world" where
  "send req w = w\<lparr>sent := sent w @ [req]\<rparr>"

text \<open>
  A call either returns a value or lets an exception through. The three \<^verbatim>\<open>except\<close>
  clauses are tried in the order of the source; each prints one line and returns
  \<^verbatim>\<open>None\<close>. The line of the \<^verbatim>\<open>Timeout\<close> clause is the only one that differs between the
  operations.
\<close>

datatype 'a outcome = Returned 'a | Raised exn

definition handlers :: "string \<Rightarrow> exn \<Rightarrow> DataFrame option outcome \<times> string list" where
  "handlers timed_out e =
     (if is_Timeout e then (Returned None, [timed_out])
      else if is_RequestException e then (Returned None, [''Request error: '' @ str_of_exn e])
      else if is_Exception e then (Returned None, [''Error processing data: '' @ str_of_exn e])
      else (Raised e, []))"

definition run_try ::
  "string \<Rightarrow> exn + (DataFrame option \<times> string list) \<Rightarrow> world \<Rightarrow> DataFrame option outcome \<times> world"
where
  "run_try timed_out r w =
     (case r of
        Inr (df, lines) \<Rightarrow> (Returned df, print lines w)
      | Inl e \<Rightarrow> (case handlers timed_out e of (out, lines) \<Rightarrow> (out, print lines w)))"

subsection \<open>\<^verbatim>\<open>get_boundaries\<close>\<close>

definition boundaries_url :: "string \<Rightarrow> string \<Rightarrow> string" where
  "boundaries_url attr val =
     concat
       [''https://services.arcgis.com/iQ1dY19aHwbSDYIF/ArcGIS/rest/services/'',
        ''World_Bank_Official_Boundaries_World_Country_Polygons_(Very_High_Definition)/FeatureServer/0/query?'',
        ''where='' @ attr @ ''='' @ [quote] @ val @ [quote] @
        ''&f=pjson&returnGeometry=true&outFields=*&outSR=4326'']"

text \<open>
  \<^verbatim>\<open>'features' not in res or len(res['features']) == 0\<close>: the length is only taken when
  the key is there.
\<close>

definition no_features :: "json \<Rightarrow> exn + bool" where
  "no_features res =
     bind_exn (py_in ''features'' res) (\<lambda>present.
       if \<not> present then Inr True
       else bind_exn (py_getitem res ''features'') (\<lambda>fs.
            bind_exn (py_len fs) (\<lambda>n. Inr (n = 0))))"

text \<open>The loop of lines 54 and 55: \<^verbatim>\<open>rings[i]\<close> for each \<^verbatim>\<open>i\<close>, a polygon from each.\<close>

fun ring_polygons :: "json \<Rightarrow> nat list \<Rightarrow> exn + geometry list" where
  "ring_polygons rings [] = Inr []"
| "ring_polygons rings (i # rest) =
     bind_exn (py_getitem_int rings i) (\<lambda>ring.
     bind_exn (Polygon ring) (\<lambda>g.
     bind_exn (ring_polygons rings rest) (\<lambda>geom_list. Inr (g # geom_list))))"

text \<open>
  Lines 50 to 59, on the first feature: the transposed attribute table without its
  last row, the polygons of the rings, their union stored under row \<^verbatim>\<open>attributes\<close> and
  column \<^verbatim>\<open>rings\<close>. The source writes \<^verbatim>\<open>res['features'][0]\<close> each time; nothing changes
  it in between.
\<close>

definition first_feature_table :: "json \<Rightarrow> exn + DataFrame" where
  "first_feature_table feature =
     bind_exn (from_dict feature) (\<lambda>d.
     let df = drop_last (T d) in
     bind_exn (py_getitem feature ''geometry'') (\<lambda>geometry.
     bind_exn (py_getitem geometry ''rings'') (\<lambda>rings.
     bind_exn (py_len rings) (\<lambda>n.
     bind_exn (ring_polygons rings [0..<n]) (\<lambda>geom_list.
     let geom = unary_union geom_list
     in Inr (loc_set df (Name ''attributes'') (Name ''rings'') (Geo geom)))))))"

definition get_boundaries_try ::
  "service \<Rightarrow> request \<Rightarrow> string \<Rightarrow> string \<Rightarrow> exn + (DataFrame option \<times> string list)"
where
  "get_boundaries_try svc req attr val =
     bind_exn (fetch svc req) (\<lambda>res.
     bind_exn (no_features res) (\<lambda>none.
       if none then
         Inr (None, [''No features found for '' @ attr @ ''='' @ [quote] @ val @ [quote]])
       else
         bind_exn (py_getitem res ''features'') (\<lambda>fs.
         bind_exn (py_getitem_int fs 0) (\<lambda>feature.
         bind_exn (first_feature_table feature) (\<lambda>df.
         Inr (Some df, []))))))"

definition boundaries_request :: "string \<Rightarrow> string \<Rightarrow> request" where
  "boundaries_request attr val = \<lparr>url = boundaries_url attr val, timeout = 30, verify = False\<rparr>"

definition get_boundaries ::
  "service \<Rightarrow> string \<Rightarrow> string \<Rightarrow> world \<Rightarrow> DataFrame option outcome \<times> world"
where
  "get_boundaries svc attr val w =
     (let req = boundaries_request attr val
      in run_try (''Request timed out for '' @ attr @ ''='' @ [quote] @ val @ [quote])
           (get_boundaries_try svc req attr val) (send req w))"

subsection \<open>\<^verbatim>\<open>get_admin1_boundaries\<close> and \<^verbatim>\<open>get_admin2_boundaries\<close>\<close>

text \<open>
  The two functions are the same text up to the layer of the endpoint (2 and 3) and
  the level named in the printed lines (1 and 2); \<open>admin_url\<close> and
  \<open>get_admin_try\<close> take both as arguments.
\<close>

definition admin_url :: "string \<Rightarrow> string \<Rightarrow> string" where
  "admin_url layer iso_code =
     concat
       [''https://services.arcgis.com/iQ1dY19aHwbSDYIF/ArcGIS/rest/services/'',
        ''World_Bank_Global_Administrative_Divisions/FeatureServer/'' @ layer @ ''/query?'',
        ''where=ISO_A3='' @ [quote] @ iso_code @ [quote] @
        ''&f=pjson&returnGeometry=true&outFields=*&outSR=4326'']"

fun polygons :: "json list \<Rightarrow> exn + geometry list" where
  "polygons [] = Inr []"
| "polygons (ring # rest) =
     bind_exn (Polygon ring) (\<lambda>g.
     bind_exn (polygons rest) (\<lambda>geom_list. Inr (g # geom_list)))"

text \<open>\<^verbatim>\<open>attrs['geometry'] = geom\<close>: only a dict takes a string key.\<close>

definition setitem :: "json \<Rightarrow> string \<Rightarrow> cell \<Rightarrow> exn + (string \<times> cell) list" where
  "setitem attrs k v =
     (case attrs of
        JObj d \<Rightarrow> Inr (AList.update k v (map (\<lambda>kv. (fst kv, Obj (snd kv))) d))
      | JArr xs \<Rightarrow> Inl (Exc TypeError ''list indices must be integers or slices, not str'')
      | other \<Rightarrow>
          Inl (Exc TypeError
                 (repr_str (type_name other) @ '' object does not support item assignment'')))"

text \<open>The body of the loop over the features: one row, or an exception.\<close>

definition feature_row :: "json \<Rightarrow> exn + (string \<times> cell) list" where
  "feature_row feature =
     bind_exn (py_getitem feature ''attributes'') (\<lambda>attrs.
     bind_exn (py_getitem feature ''geometry'') (\<lambda>geometry.
     bind_exn (py_in ''rings'' geometry) (\<lambda>has_rings.
     bind_exn
       (if has_rings then
          bind_exn (py_getitem geometry ''rings'') (\<lambda>rings.
          bind_exn (py_iter rings) (\<lambda>rs.
          bind_exn (polygons rs) (\<lambda>geom_list. Inr (Geo (unary_union geom_list)))))
        else Inr (Obj JNull))
       (\<lambda>geom. setitem attrs ''geometry'' geom))))"

fun feature_rows :: "json list \<Rightarrow> exn + (string \<times> cell) list list" where
  "feature_rows [] = Inr []"
| "feature_rows (feature # rest) =
     bind_exn (feature_row feature) (\<lambda>row.
     bind_exn (feature_rows rest) (\<lambda>rows. Inr (row # rows)))"

definition get_admin_try ::
  "string \<Rightarrow> service \<Rightarrow> request \<Rightarrow> string \<Rightarrow> exn + (DataFrame option \<times> string list)"
where
  "get_admin_try level svc req iso_code =
     bind_exn (fetch svc req) (\<lambda>res.
     bind_exn (no_features res) (\<lambda>none.
       if none then
         Inr (None, [''No admin '' @ level @ '' features found for ISO='' @
                     [quote] @ iso_code @ [quote]])
       else
         bind_exn (py_getitem res ''features'') (\<lambda>fs.
         bind_exn (py_iter fs) (\<lambda>features.
         bind_exn (feature_rows features) (\<lambda>rows.
         let df = DataFrame_of_rows rows
         in Inr (Some df, [''Found '' @ str_nat (len_df df) @ '' admin '' @ level @
                           '' subdivisions for '' @ iso_code]))))))"

definition admin_request :: "string \<Rightarrow> string \<Rightarrow> request" where
  "admin_request layer iso_code = \<lparr>url = admin_url layer iso_code, timeout = 30, verify = False\<rparr>"

definition get_admin_boundaries ::
  "string \<Rightarrow> string \<Rightarrow> service \<Rightarrow> string \<Rightarrow> world \<Rightarrow> DataFrame option outcome \<times> world"
where
  "get_admin_boundaries layer level svc iso_code w =
     (let req = admin_request layer iso_code
      in run_try (''Request timed out for ISO='' @ [quote] @ iso_code @ [quote])
           (get_admin_try level svc req iso_code) (send req w))"

definition get_admin1_boundaries ::
  "service \<Rightarrow> string \<Rightarrow> world \<Rightarrow> DataFrame option outcome \<times> world"
where
  "get_admin1_boundaries = get_admin_boundaries ''2'' ''1''"

definition get_admin2_boundaries ::
  "service \<Rightarrow> string \<Rightarrow> world \<Rightarrow> DataFrame option outcome \<times> world"
where
  "get_admin2_boundaries = get_admin_boundaries ''3'' ''2''"

section \<open>Notions used in the statements\<close>

text \<open>\<^verbatim>\<open>raise_for_status\<close> lets a status through unless it is a 4xx or a 5xx.\<close>

definition status_ok :: "nat \<Rightarrow> bool" where
  "status_ok st = (st < 400 \<or> 600 \<le> st)"

text \<open>An exception, if any, that \<^verbatim>\<open>except Exception\<close> catches.\<close>

definition catchable :: "exn + 'a \<Rightarrow> bool" where
  "catchable r = (case r of Inl e \<Rightarrow> is_Exception e | Inr x \<Rightarrow> True)"



text \<open>
  How the service reads the string literal of a \<^verbatim>\<open>where\<close> predicate: it starts after the
  first quote and ends before the next one.
\<close>

definition quoted_literal :: "string \<Rightarrow> string" where
  "quoted_literal s = takeWhile (\<lambda>c. c \<noteq> quote) (tl (dropWhile (\<lambda>c. c \<noteq> quote) s))"


subsection \<open>Concrete inputs\<close>

text \<open>The closed ring of the axis-parallel square with lower left corner \<open>(x, y)\<close> and side \<open>n\<close>.\<close>

definition square :: "int \<Rightarrow> int \<Rightarrow> int \<Rightarrow> json" where
  "square x y n =
     JArr [JArr [JNum x, JNum y], JArr [JNum x, JNum (y + n)], JArr [JNum (x + n), JNum (y + n)],
           JArr [JNum (x + n), JNum y], JArr [JNum x, JNum y]]"

definition haiti :: "json list \<Rightarrow> json" where
  "haiti rings =
     JObj [(''attributes'', JObj [(''ISO_A3'', JStr ''HTI''), (''NAME_EN'', JStr ''Haiti'')]),
           (''geometry'', JObj [(''rings'', JArr rings)])]"

definition ouest :: json where
  "ouest =
     JObj [(''attributes'', JObj [(''ISO_A3'', JStr ''HTI''), (''NAM_1'', JStr ''Ouest'')]),
           (''geometry'', JObj [(''rings'', JArr [square 0 0 1])])]"

definition nippes :: json where
  "nippes =
     JObj [(''attributes'', JObj [(''ISO_A3'', JStr ''HTI''), (''NAM_1'', JStr ''Nippes'')]),
           (''geometry'', JObj [(''paths'', JArr [])])]"



definition features :: "json list \<Rightarrow> json" where
  "features fs = JObj [(''features'', JArr fs)]"

text \<open>A service that answers every request with status 200 and the given object.\<close>

definition serve :: "json \<Rightarrow> service" where
  "serve res = (\<lambda>req. Replied 200 ''OK'' (Parsed res))"

definition fresh :: world where
  "fresh = \<lparr>stdout = [], sent = []\<rparr>"

section \<open>Basic facts\<close>

lemma bind_exn_simps [simp]:
  "bind_exn (Inl e) f = Inl e"
  "bind_exn (Inr x) f = f x"
  by (simp_all add: bind_exn_def)

lemma fetch_parsed:
  "svc req = Replied st reason (Parsed res) \<Longrightarrow> status_ok st \<Longrightarrow> fetch svc req = Inr res"
  by (auto simp: fetch_def requests_get_def raise_for_status_def json_of_def status_ok_def)

lemma catchable_simps [simp]:
  "catchable (Inr x)"
  "catchable (Inl (Exc c m)) = (c \<noteq> KeyboardInterrupt)"
  by (simp_all add: catchable_def is_Exception_def)























lemma stdout_send [simp]: "stdout (send req w) = stdout w"
  by (simp add: send_def)

lemma sent_send [simp]: "sent (send req w) = sent w @ [req]"
  by (simp add: send_def)




lemma no_features_present:
  "map_of kvs ''features'' = Some fs \<Longrightarrow>
   no_features (JObj kvs) = bind_exn (py_len fs) (\<lambda>n. Inr (n = 0))"
  using map_of_eq_None_iff [of kvs "''features''"]
  by (simp add: no_features_def del: map_of_eq_None_iff)

lemma run_try_Inr: "run_try t (Inr (df, lines)) w = (Returned df, print lines w)"
  by (simp add: run_try_def)

lemma run_try_processing:
  "exc_class_of e \<in> {KeyError, IndexError, TypeError, ValueError} \<Longrightarrow>
   run_try t (Inl e) w = (Returned None, print [''Error processing data: '' @ str_of_exn e] w)"
  by (auto simp: run_try_def handlers_def is_Timeout_def is_RequestException_def is_Exception_def)

lemma get_boundaries_no_features:
  assumes "svc (boundaries_request attr val) = Replied st reason (Parsed res)"
    and "status_ok st" and "no_features res = Inr True"
  shows "get_boundaries svc attr val w =
           (Returned None,
            print [''No features found for '' @ attr @ ''='' @ [quote] @ val @ [quote]]
              (send (boundaries_request attr val) w))"
  using assms by (simp add: get_boundaries_def get_boundaries_try_def fetch_parsed run_try_Inr)

lemma get_admin_no_features:
  assumes "svc (admin_request layer iso_code) = Replied st reason (Parsed res)"
    and "status_ok st" and "no_features res = Inr True"
  shows "get_admin_boundaries layer level svc iso_code w =
           (Returned None,
            print [''No admin '' @ level @ '' features found for ISO='' @ [quote] @ iso_code @ [quote]]
              (send (admin_request layer iso_code) w))"
  using assms by (simp add: get_admin_boundaries_def get_admin_try_def fetch_parsed run_try_Inr)

lemma no_features_empty: "no_features (features []) = Inr True"
  by (simp add: features_def no_features_present)

lemma from_dict_raises: "from_dict d = Inl e \<Longrightarrow> exc_class_of e = ValueError"
  by (cases d) (auto simp: from_dict_def Let_def split: if_splits)

lemma get_boundaries_first:
  assumes "fetch svc (boundaries_request attr val) = Inr (JObj kvs)"
    and "map_of kvs ''features'' = Some (JArr (f # rest))"
  shows "get_boundaries svc attr val w =
           run_try (''Request timed out for '' @ attr @ ''='' @ [quote] @ val @ [quote])
             (bind_exn (first_feature_table f) (\<lambda>df. Inr (Some df, [])))
             (send (boundaries_request attr val) w)"
  using assms
  by (simp add: get_boundaries_def get_boundaries_try_def no_features_present)

lemma first_feature_table_no_rings:
  assumes "map_of f ''geometry'' = None \<or>
           (\<exists>g. map_of f ''geometry'' = Some (JObj g) \<and> map_of g ''rings'' = None)"
  shows "\<exists>e. first_feature_table (JObj f) = Inl e \<and> exc_class_of e \<in> {KeyError, ValueError}"
proof (cases "from_dict (JObj f)")
  case (Inl e)
  then show ?thesis
    by (simp add: first_feature_table_def from_dict_raises)
next
  case (Inr d)
  with assms show ?thesis
    by (auto simp: first_feature_table_def)
qed

lemma run_try_world:
  "fst (run_try t r w) = fst (run_try t r w') \<and>
   drop (length (stdout w)) (stdout (snd (run_try t r w))) =
   drop (length (stdout w')) (stdout (snd (run_try t r w'))) \<and>
   sent (snd (run_try t r w)) = sent w"
  by (auto simp: run_try_def print_def split: sum.splits prod.splits)

lemma get_boundaries_world:
  "fst (get_boundaries svc attr val w) = fst (get_boundaries svc attr val w') \<and>
   drop (length (stdout w)) (stdout (snd (get_boundaries svc attr val w))) =
   drop (length (stdout w')) (stdout (snd (get_boundaries svc attr val w')))"
  unfolding get_boundaries_def Let_def
  using run_try_world [of _ _ "send (boundaries_request attr val) w"
      "send (boundaries_request attr val) w'"]
  by simp

lemma get_admin_world:
  "fst (get_admin_boundaries layer level svc iso_code w) =
   fst (get_admin_boundaries layer level svc iso_code w') \<and>
   drop (length (stdout w)) (stdout (snd (get_admin_boundaries layer level svc iso_code w))) =
   drop (length (stdout w')) (stdout (snd (get_admin_boundaries layer level svc iso_code w')))"
  unfolding get_admin_boundaries_def Let_def
  using run_try_world [of _ _ "send (admin_request layer iso_code) w"
      "send (admin_request layer iso_code) w'"]
  by simp

lemma run_try_sent: "sent (snd (run_try t r w)) = sent w"
  by (simp add: run_try_world)

lemma quote_free_prefix:
  "quote \<notin> set p \<Longrightarrow> quoted_literal (p @ [quote] @ v @ [quote] @ q) = takeWhile (\<lambda>c. c \<noteq> quote) v"
proof -
  assume "quote \<notin> set p"
  then have "dropWhile (\<lambda>c. c \<noteq> quote) (p @ quote # r) = quote # r" for r
    by (induction p) auto
  then show ?thesis
    by (simp add: quoted_literal_def takeWhile_tail)
qed








lemma set_unique [simp]: "set (unique xs) = set xs"
  by (simp add: unique_def)

lemma print_nothing [simp]: "print [] w = w"
  by (simp add: print_def)



















section \<open>The claims\<close>





text \<open>
  C10. A parsed response in which \<^verbatim>\<open>'features' in res\<close> is false (an object without the
  key, such as an error object of the service) is handled by each of the three
  operations as an empty feature list is: the line about no features is printed and
  \<^verbatim>\<open>None\<close> is returned, and the outcome is equal to the outcome for the response
  \<^verbatim>\<open>{"features": []}\<close>.
\<close>

theorem missing_features_key:
  assumes "\<And>req. svc req = Replied st reason (Parsed res)"
    and "status_ok st"
    and "py_in ''features'' res = Inr False"
  shows "get_boundaries svc attr val w =
           (Returned None,
            print [''No features found for '' @ attr @ ''='' @ [quote] @ val @ [quote]]
              (send (boundaries_request attr val) w)) \<and>
         get_admin1_boundaries svc iso_code w =
           (Returned None,
            print [''No admin 1 features found for ISO='' @ [quote] @ iso_code @ [quote]]
              (send (admin_request ''2'' iso_code) w)) \<and>
         get_admin2_boundaries svc iso_code w =
           (Returned None,
            print [''No admin 2 features found for ISO='' @ [quote] @ iso_code @ [quote]]
              (send (admin_request ''3'' iso_code) w)) \<and>
         get_boundaries svc attr val w =
           get_boundaries (\<lambda>req. Replied st reason (Parsed (features []))) attr val w \<and>
         get_admin1_boundaries svc iso_code w =
           get_admin1_boundaries (\<lambda>req. Replied st reason (Parsed (features []))) iso_code w \<and>
         get_admin2_boundaries svc iso_code w =
           get_admin2_boundaries (\<lambda>req. Replied st reason (Parsed (features []))) iso_code w"
proof -
  from assms(3) have nf: "no_features res = Inr True"
    by (simp add: no_features_def)
  note b = get_boundaries_no_features [OF assms(1) assms(2) nf]
  note a = get_admin_no_features [OF assms(1) assms(2) nf]
  have e: "(\<lambda>req. Replied st reason (Parsed (features []))) r =
      Replied st reason (Parsed (features []))" for r :: request
    by simp
  note b' = get_boundaries_no_features [OF e assms(2) no_features_empty]
  note a' = get_admin_no_features [OF e assms(2) no_features_empty]
  show ?thesis
    unfolding get_admin1_boundaries_def get_admin2_boundaries_def
    by (simp add: a b a' b')
qed

theorem missing_features_key_witness:
  "py_in ''features'' (JObj [(''error'', JObj [(''code'', JNum 400)])]) = Inr False \<and>
   get_admin1_boundaries (serve (JObj [(''error'', JObj [(''code'', JNum 400)])])) ''HTI'' fresh =
     (Returned None,
      \<lparr>stdout = [''No admin 1 features found for ISO='' @ [quote] @ ''HTI'' @ [quote]],
       sent = [admin_request ''2'' ''HTI'']\<rparr>)"
  using missing_features_key [of "serve (JObj [(''error'', JObj [(''code'', JNum 400)])])" 200
      "''OK''" "JObj [(''error'', JObj [(''code'', JNum 400)])]" "''ISO_A3''" "''HTI''" fresh "''HTI''"]
  by (simp add: serve_def status_ok_def print_def send_def fresh_def)

text \<open>
  C9. In \<^verbatim>\<open>get_boundaries\<close>, when the first feature is an object without the key
  \<^verbatim>\<open>geometry\<close>, or with a geometry object without the key \<^verbatim>\<open>rings\<close>, the call returns
  \<^verbatim>\<open>None\<close> through the last handler, having printed a line that starts with
  \<^verbatim>\<open>Error processing data: \<close>; no table is returned.
\<close>

theorem missing_rings_is_processing_error:
  assumes "svc (boundaries_request attr val) = Replied st reason (Parsed (JObj kvs))"
    and "status_ok st"
    and "map_of kvs ''features'' = Some (JArr (JObj f # rest))"
    and "map_of f ''geometry'' = None \<or>
         (\<exists>g. map_of f ''geometry'' = Some (JObj g) \<and> map_of g ''rings'' = None)"
  shows "\<exists>msg. get_boundaries svc attr val w =
           (Returned None,
            print [''Error processing data: '' @ msg] (send (boundaries_request attr val) w))"
proof -
  from first_feature_table_no_rings [OF assms(4)]
  obtain e where e: "first_feature_table (JObj f) = Inl e"
    and c: "exc_class_of e \<in> {KeyError, ValueError}" by blast
  from c have "exc_class_of e \<in> {KeyError, IndexError, TypeError, ValueError}" by auto
  moreover have "fetch svc (boundaries_request attr val) = Inr (JObj kvs)"
    using assms(1,2) by (rule fetch_parsed)
  ultimately show ?thesis
    by (simp only: get_boundaries_first [OF _ assms(3)] e bind_exn_simps run_try_processing) blast
qed

theorem missing_rings_is_processing_error_witness:
  "\<exists>msg. get_boundaries (serve (features [nippes])) ''ISO_A3'' ''HTI'' fresh =
     (Returned None,
      \<lparr>stdout = [''Error processing data: '' @ msg],
       sent = [boundaries_request ''ISO_A3'' ''HTI'']\<rparr>)"
  using missing_rings_is_processing_error [of "serve (features [nippes])" "''ISO_A3''" "''HTI''"
      200 "''OK''" "[(''features'', JArr [nippes])]"
      "[(''attributes'', JObj [(''ISO_A3'', JStr ''HTI''), (''NAM_1'', JStr ''Nippes'')]),
        (''geometry'', JObj [(''paths'', JArr [])])]" "[]" fresh]
  by (simp add: serve_def features_def nippes_def status_ok_def print_def send_def fresh_def)

text \<open>
  C5. \<^verbatim>\<open>get_boundaries\<close> uses the first feature only: two responses whose feature lists
  start with the same feature give the same returned value and the same printed lines,
  whatever follows the first feature (and whatever else the responses hold).
\<close>

theorem only_first_feature_used:
  assumes "svc (boundaries_request attr val) = Replied st reason (Parsed (JObj kvs))"
    and "svc' (boundaries_request attr val) = Replied st' reason' (Parsed (JObj kvs'))"
    and "status_ok st" and "status_ok st'"
    and "map_of kvs ''features'' = Some (JArr (f # rest))"
    and "map_of kvs' ''features'' = Some (JArr (f # rest'))"
  shows "get_boundaries svc attr val w = get_boundaries svc' attr val w"
proof -
  have "fetch svc (boundaries_request attr val) = Inr (JObj kvs)"
    using assms(1,3) by (rule fetch_parsed)
  moreover have "fetch svc' (boundaries_request attr val) = Inr (JObj kvs')"
    using assms(2,4) by (rule fetch_parsed)
  ultimately show ?thesis
    by (simp only: get_boundaries_first [OF _ assms(5)] get_boundaries_first [OF _ assms(6)])
qed

theorem only_first_feature_used_witness:
  "get_boundaries (serve (features [haiti [square 0 0 1], ouest, nippes])) ''ISO_A3'' ''HTI'' fresh =
   get_boundaries (serve (features [haiti [square 0 0 1]])) ''ISO_A3'' ''HTI'' fresh"
  using only_first_feature_used [of "serve (features [haiti [square 0 0 1], ouest, nippes])"
      "''ISO_A3''" "''HTI''" 200 "''OK''" "[(''features'', JArr [haiti [square 0 0 1], ouest, nippes])]"
      "serve (features [haiti [square 0 0 1]])" 200 "''OK''"
      "[(''features'', JArr [haiti [square 0 0 1]])]" "haiti [square 0 0 1]" "[ouest, nippes]" "[]"
      fresh]
  by (simp add: serve_def features_def status_ok_def)

text \<open>
  C8. The operations keep no state: with the same arguments and the same remote
  service, the value returned and the lines printed are the same from any two states
  of the process, in particular in a first call and in the call made right after it.
\<close>

theorem calls_keep_no_state:
  "fst (get_boundaries svc attr val w) = fst (get_boundaries svc attr val w') \<and>
   drop (length (stdout w)) (stdout (snd (get_boundaries svc attr val w))) =
   drop (length (stdout w')) (stdout (snd (get_boundaries svc attr val w'))) \<and>
   fst (get_admin1_boundaries svc iso_code w) = fst (get_admin1_boundaries svc iso_code w') \<and>
   drop (length (stdout w)) (stdout (snd (get_admin1_boundaries svc iso_code w))) =
   drop (length (stdout w')) (stdout (snd (get_admin1_boundaries svc iso_code w'))) \<and>
   fst (get_admin2_boundaries svc iso_code w) = fst (get_admin2_boundaries svc iso_code w') \<and>
   drop (length (stdout w)) (stdout (snd (get_admin2_boundaries svc iso_code w))) =
   drop (length (stdout w')) (stdout (snd (get_admin2_boundaries svc iso_code w')))"
  unfolding get_admin1_boundaries_def get_admin2_boundaries_def
  using get_boundaries_world [of svc attr val w w']
    get_admin_world [of "''2''" "''1''" svc iso_code w w']
    get_admin_world [of "''3''" "''2''" svc iso_code w w']
  by simp

text \<open>
  C7. Each operation sends exactly one request, with a 30 second timeout and without
  certificate verification, to the fixed endpoint of its layer followed by
  \<^verbatim>\<open>where=<attr>='<val>'\<close> (\<^verbatim>\<open>ISO_A3='<iso_code>'\<close> for the admin operations) and
  \<^verbatim>\<open>&f=pjson&returnGeometry=true&outFields=*&outSR=4326\<close>. The value is put in as it is:
  the literal the service reads between the quotes is the value up to its first quote,
  so it is the value exactly when the value has no quote.
\<close>

theorem request_url_shape:
  "sent (snd (get_boundaries svc attr val w)) = sent w @
     [\<lparr>url = ''https://services.arcgis.com/iQ1dY19aHwbSDYIF/ArcGIS/rest/services/World_Bank_Official_Boundaries_World_Country_Polygons_(Very_High_Definition)/FeatureServer/0/query?'' @
            ''where='' @ attr @ ''='' @ [quote] @ val @ [quote] @
            ''&f=pjson&returnGeometry=true&outFields=*&outSR=4326'',
       timeout = 30, verify = False\<rparr>] \<and>
   sent (snd (get_admin1_boundaries svc iso_code w)) = sent w @
     [\<lparr>url = ''https://services.arcgis.com/iQ1dY19aHwbSDYIF/ArcGIS/rest/services/World_Bank_Global_Administrative_Divisions/FeatureServer/2/query?'' @
            ''where=ISO_A3='' @ [quote] @ iso_code @ [quote] @
            ''&f=pjson&returnGeometry=true&outFields=*&outSR=4326'',
       timeout = 30, verify = False\<rparr>] \<and>
   sent (snd (get_admin2_boundaries svc iso_code w)) = sent w @
     [\<lparr>url = ''https://services.arcgis.com/iQ1dY19aHwbSDYIF/ArcGIS/rest/services/World_Bank_Global_Administrative_Divisions/FeatureServer/3/query?'' @
            ''where=ISO_A3='' @ [quote] @ iso_code @ [quote] @
            ''&f=pjson&returnGeometry=true&outFields=*&outSR=4326'',
       timeout = 30, verify = False\<rparr>] \<and>
   (quote \<notin> set attr \<longrightarrow>
      quoted_literal (boundaries_url attr val) = takeWhile (\<lambda>c. c \<noteq> quote) val \<and>
      ((quoted_literal (boundaries_url attr val) = val) = (quote \<notin> set val))) \<and>
   (quoted_literal (url (admin_request ''2'' iso_code)) = iso_code) = (quote \<notin> set iso_code) \<and>
   (quoted_literal (url (admin_request ''3'' iso_code)) = iso_code) = (quote \<notin> set iso_code)"
proof (intro conjI impI)
  show "sent (snd (get_boundaries svc attr val w)) = sent w @
     [\<lparr>url = ''https://services.arcgis.com/iQ1dY19aHwbSDYIF/ArcGIS/rest/services/World_Bank_Official_Boundaries_World_Country_Polygons_(Very_High_Definition)/FeatureServer/0/query?'' @
            ''where='' @ attr @ ''='' @ [quote] @ val @ [quote] @
            ''&f=pjson&returnGeometry=true&outFields=*&outSR=4326'',
       timeout = 30, verify = False\<rparr>]"
    by (simp add: get_boundaries_def Let_def run_try_sent boundaries_request_def
          boundaries_url_def)
  show "sent (snd (get_admin1_boundaries svc iso_code w)) = sent w @
     [\<lparr>url = ''https://services.arcgis.com/iQ1dY19aHwbSDYIF/ArcGIS/rest/services/World_Bank_Global_Administrative_Divisions/FeatureServer/2/query?'' @
            ''where=ISO_A3='' @ [quote] @ iso_code @ [quote] @
            ''&f=pjson&returnGeometry=true&outFields=*&outSR=4326'',
       timeout = 30, verify = False\<rparr>]"
    by (simp add: get_admin1_boundaries_def get_admin_boundaries_def Let_def run_try_sent
          admin_request_def admin_url_def)
  show "sent (snd (get_admin2_boundaries svc iso_code w)) = sent w @
     [\<lparr>url = ''https://services.arcgis.com/iQ1dY19aHwbSDYIF/ArcGIS/rest/services/World_Bank_Global_Administrative_Divisions/FeatureServer/3/query?'' @
            ''where=ISO_A3='' @ [quote] @ iso_code @ [quote] @
            ''&f=pjson&returnGeometry=true&outFields=*&outSR=4326'',
       timeout = 30, verify = False\<rparr>]"
    by (simp add: get_admin2_boundaries_def get_admin_boundaries_def Let_def run_try_sent
          admin_request_def admin_url_def)
  have admin: "quoted_literal (url (admin_request layer iso_code)) =
      takeWhile (\<lambda>c. c \<noteq> quote) iso_code" if "quote \<notin> set layer" for layer
    using that quote_free_prefix [of "''https://services.arcgis.com/iQ1dY19aHwbSDYIF/ArcGIS/rest/services/World_Bank_Global_Administrative_Divisions/FeatureServer/'' @ layer @ ''/query?where=ISO_A3=''" iso_code "''&f=pjson&returnGeometry=true&outFields=*&outSR=4326''"]
    by (simp add: admin_request_def admin_url_def quote_def)
  show "(quoted_literal (url (admin_request ''2'' iso_code)) = iso_code) = (quote \<notin> set iso_code)"
    by (subst admin) (auto simp: quote_def takeWhile_eq_all_conv)
  show "(quoted_literal (url (admin_request ''3'' iso_code)) = iso_code) = (quote \<notin> set iso_code)"
    by (subst admin) (auto simp: quote_def takeWhile_eq_all_conv)
  assume a: "quote \<notin> set attr"
  then show lit: "quoted_literal (boundaries_url attr val) = takeWhile (\<lambda>c. c \<noteq> quote) val"
    using quote_free_prefix [of "''https://services.arcgis.com/iQ1dY19aHwbSDYIF/ArcGIS/rest/services/World_Bank_Official_Boundaries_World_Country_Polygons_(Very_High_Definition)/FeatureServer/0/query?where='' @ attr @ ''=''" val "''&f=pjson&returnGeometry=true&outFields=*&outSR=4326''"]
    by (simp add: boundaries_url_def quote_def)
  show "(quoted_literal (boundaries_url attr val) = val) = (quote \<notin> set val)"
    by (subst lit) (auto simp: takeWhile_eq_all_conv)
qed

theorem request_url_shape_witness:
  "quote \<notin> set ''NAME_EN'' \<and>
   quoted_literal (boundaries_url ''NAME_EN'' (''Cote d'' @ [quote] @ ''Ivoire'')) = ''Cote d'' \<and>
   quoted_literal (boundaries_url ''NAME_EN'' (''Cote d'' @ [quote] @ ''Ivoire''))
     \<noteq> ''Cote d'' @ [quote] @ ''Ivoire''"
  using request_url_shape [of "serve (features [])" "''NAME_EN''"
      "''Cote d'' @ [quote] @ ''Ivoire''" fresh "''CIV''"]
  by (simp add: quote_def)










end
